theory Spec2Isabelle
  imports Main
begin

section \<open>The ObservableFetchQuery component of the sysmon demo client\<close>

text \<open>
  Source: \<^verbatim>\<open>demos/sysmon-client/src/components/ObservableFetchQuery.js\<close>.
  The component subscribes to an observable GraphQL query when it is mounted, copies every
  notification into its React state, and unsubscribes when it is unmounted.
\<close>

subsection \<open>JavaScript values\<close>

text \<open>
  The values that flow through the component: what the source delivers to \<^verbatim>\<open>next\<close> and
  \<^verbatim>\<open>error\<close>, and what \<^verbatim>\<open>render\<close> reads. \<open>JObj\<close> is a plain object given by its own
  data properties, each key once; \<open>JError m\<close> is an \<^verbatim>\<open>Error\<close> instance and \<open>JTypeError m\<close>
  a \<^verbatim>\<open>TypeError\<close> instance whose message is \<open>m\<close>; \<open>JThrowing e\<close> is an object whose
  \<^verbatim>\<open>message\<close> cannot be read: the property is an accessor, or the object a proxy, and the
  read throws \<open>e\<close>.
\<close>

datatype jsval =
    JUndefined
  | JNull
  | JBool bool
  | JNum int
  | JStr string
  | JArr "jsval list"
  | JObj "(string \<times> jsval) list"
  | JError string
  | JTypeError string
  | JThrowing jsval

text \<open>A call either returns a value or throws one.\<close>

datatype 'a completion = Returns 'a | Throws jsval

text \<open>
  The text of the TypeError for a property read on \<^verbatim>\<open>undefined\<close> or \<^verbatim>\<open>null\<close>, in the
  wording of V8; other engines word it differently.
\<close>

definition cannot_read :: "string \<Rightarrow> string \<Rightarrow> string" where
  "cannot_read operand property =
     ''Cannot read properties of '' @ operand @ '' (reading '' @ [CHR 0x27] @ property @
     [CHR 0x27] @ '')''"

text \<open>
  The member access \<^verbatim>\<open>v.message\<close>. Reading a property of \<^verbatim>\<open>undefined\<close> or \<^verbatim>\<open>null\<close>
  throws a TypeError; a primitive or an array has no such property and yields
  \<^verbatim>\<open>undefined\<close>; a plain object yields its own property if it has one; an error instance
  yields its message; an accessor or proxy trap that throws makes the read throw.
\<close>

fun get_message :: "jsval \<Rightarrow> jsval completion" where
  "get_message JUndefined = Throws (JTypeError (cannot_read ''undefined'' ''message''))"
| "get_message JNull = Throws (JTypeError (cannot_read ''null'' ''message''))"
| "get_message (JBool b) = Returns JUndefined"
| "get_message (JNum n) = Returns JUndefined"
| "get_message (JStr s) = Returns JUndefined"
| "get_message (JArr vs) = Returns JUndefined"
| "get_message (JObj kvs) =
     (case map_of kvs ''message'' of None \<Rightarrow> Returns JUndefined | Some v \<Rightarrow> Returns v)"
| "get_message (JError m) = Returns (JStr m)"
| "get_message (JTypeError m) = Returns (JStr m)"
| "get_message (JThrowing e) = Throws e"

subsection \<open>The component instance\<close>

type_synonym handle = nat

record view_state =
  response :: jsval
  complete :: bool
  error :: jsval

text \<open>
  The instance has the field \<^verbatim>\<open>subscription\<close> and the React state. \<open>mounted\<close> is what
  React keeps on the instance (its \<^verbatim>\<open>updater\<close> and the link into the rendered tree): whether
  the instance is part of the tree, which decides whether \<^verbatim>\<open>setState\<close> has any effect. The
  component's own code never reads or writes it.
\<close>

record component =
  subscription :: "handle option"
  state :: view_state
  mounted :: bool

text \<open>
  What the component does to the outside: console output and the call of
  \<^verbatim>\<open>unsubscribe()\<close> on a subscription object. A \<open>world\<close> is the component instance
  (\<^verbatim>\<open>this\<close>) together with the effects performed so far, oldest first.
\<close>

datatype effect = ConsoleLog jsval | ConsoleError jsval | Unsubscribe handle

record world =
  self :: component
  trace :: "effect list"

definition console_log :: "jsval \<Rightarrow> world \<Rightarrow> world" where
  "console_log v w = w\<lparr>trace := trace w @ [ConsoleLog v]\<rparr>"

definition console_error :: "jsval \<Rightarrow> world \<Rightarrow> world" where
  "console_error v w = w\<lparr>trace := trace w @ [ConsoleError v]\<rparr>"

text \<open>
  \<^verbatim>\<open>constructor(props)\<close>: \<^verbatim>\<open>super()\<close> leaves the instance outside any tree, then no
  subscription, and the state \<^verbatim>\<open>{ response: '', complete: false, error: '' }\<close>.
\<close>

definition constructor :: "jsval \<Rightarrow> component" where
  "constructor props =
     \<lparr>subscription = None,
      state = \<lparr>response = JStr '''', complete = False, error = JStr ''''\<rparr>,
      mounted = False\<rparr>"

text \<open>
  \<^verbatim>\<open>this.setState(partial)\<close> is React's: on an instance that is part of the rendered tree
  it merges the keys of the partial state into \<^verbatim>\<open>this.state\<close>; on an instance that React
  has not mounted, or has unmounted, it changes nothing. The partial state is given as the
  update of the keys it names, and the state is taken at the point where React has applied
  the update. React then renders the instance again; that rendering is not part of
  \<open>setState\<close> here, \<open>render\<close> below is stated on its own.
\<close>

definition setState :: "(view_state \<Rightarrow> view_state) \<Rightarrow> world \<Rightarrow> world" where
  "setState partial w =
     (if mounted (self w) then w\<lparr>self := (self w)\<lparr>state := partial (state (self w))\<rparr>\<rparr>
      else w)"

subsection \<open>The observer registered by invokeQuery\<close>

definition next_cb :: "jsval \<Rightarrow> world \<Rightarrow> world" where
  "next_cb r w = setState (\<lambda>s. s\<lparr>response := r\<rparr>) (console_log r w)"

definition complete_cb :: "world \<Rightarrow> world" where
  "complete_cb w = setState (\<lambda>s. s\<lparr>complete := True\<rparr>) (console_log (JStr ''complete'') w)"

definition error_cb :: "jsval \<Rightarrow> world \<Rightarrow> world" where
  "error_cb e w = setState (\<lambda>s. s\<lparr>error := e\<rparr>) (console_error e w)"

record observer =
  on_next :: "jsval \<Rightarrow> world \<Rightarrow> world"
  on_complete :: "world \<Rightarrow> world"
  on_error :: "jsval \<Rightarrow> world \<Rightarrow> world"

definition callbacks :: observer where
  "callbacks = \<lparr>on_next = next_cb, on_complete = complete_cb, on_error = error_cb\<rparr>"

subsection \<open>The subscription source\<close>

text \<open>
  Modelled from the spec: \<^verbatim>\<open>graphqlObservableFetchClient\<close> of \<^verbatim>\<open>../graphql-observable\<close>
  is not among the sources. The spec describes it as a collaborator that, given an endpoint,
  request options and a query description, returns an object exposing
  \<^verbatim>\<open>subscribe(onNext, onComplete, onError)\<close>, which returns a cancellable handle;
  notifications are delivered asynchronously, after \<^verbatim>\<open>subscribe\<close> has returned. It is a
  parameter of the model: the call \<^verbatim>\<open>graphqlObserve(...)\<close> returns an observable or throws,
  and the observable's \<^verbatim>\<open>subscribe(observer)\<close> returns a handle or throws. The handle is
  an object, so \<^verbatim>\<open>this.subscription\<close> is either \<^verbatim>\<open>null\<close> or a handle; its
  \<^verbatim>\<open>unsubscribe()\<close>, which the spec describes as safe to call, returns normally and is
  recorded in the trace.
\<close>

record request =
  url :: jsval
  init :: jsval
  query :: string
  variables :: jsval
  operation :: jsval

type_synonym observable = "observer \<Rightarrow> handle completion"

type_synonym source = "request \<Rightarrow> observable completion"

text \<open>The notifications a source can deliver to the observer it was subscribed with.\<close>

datatype notification = Next jsval | Complete | Error jsval

fun deliver :: "observer \<Rightarrow> notification \<Rightarrow> world \<Rightarrow> world" where
  "deliver ob (Next r) w = on_next ob r w"
| "deliver ob Complete w = on_complete ob w"
| "deliver ob (Error e) w = on_error ob e w"

fun deliver_all :: "observer \<Rightarrow> notification list \<Rightarrow> world \<Rightarrow> world" where
  "deliver_all ob [] w = w"
| "deliver_all ob (n # ns) w = deliver_all ob ns (deliver ob n w)"

subsection \<open>invokeQuery and the lifecycle methods\<close>

definition query_text :: string where
  "query_text =
     [CHR 0x0A] @ ''query {'' @ [CHR 0x0A] @
     ''  latest {'' @ [CHR 0x0A] @
     ''    timestamp'' @ [CHR 0x0A] @
     ''    cpu {'' @ [CHR 0x0A] @
     ''      percent'' @ [CHR 0x0A] @
     ''    }'' @ [CHR 0x0A] @
     ''  }'' @ [CHR 0x0A] @
     ''}''"

text \<open>
  The arguments of the one call \<^verbatim>\<open>graphqlObserve(url, {...}, query, variables, operation)\<close>
  in \<open>invokeQuery\<close>. \<open>graphqlQueryPath\<close> is \<^verbatim>\<open>CONFIG.graphqlQueryPath\<close>, a constant of a
  module that is not among the sources.
\<close>

definition query_request :: "jsval \<Rightarrow> request" where
  "query_request graphqlQueryPath =
     \<lparr>url = graphqlQueryPath,
      init = JObj [(''method'', JStr ''post''), (''mode'', JStr ''cors''),
                   (''headers'', JObj [(''allow'', JStr ''post'')])],
      query = query_text,
      variables = JObj [],
      operation = JNull\<rparr>"

text \<open>
  \<^verbatim>\<open>invokeQuery\<close>: builds the request, calls the source and subscribes the three callbacks;
  it returns whatever \<^verbatim>\<open>subscribe\<close> returns. There is no \<^verbatim>\<open>try\<close> around either call, so
  whatever they throw leaves \<open>invokeQuery\<close>.
\<close>

definition invokeQuery ::
  "(request \<Rightarrow> (observer \<Rightarrow> 'h completion) completion) \<Rightarrow> jsval \<Rightarrow> 'h completion" where
  "invokeQuery graphqlObserve graphqlQueryPath =
     (case graphqlObserve (query_request graphqlQueryPath) of
        Throws e \<Rightarrow> Throws e
      | Returns obs \<Rightarrow> obs callbacks)"

text \<open>
  \<^verbatim>\<open>componentDidMount\<close>: logs, then stores what \<open>invokeQuery\<close> returns. When
  \<open>invokeQuery\<close> throws, the assignment does not happen and the exception leaves the method.
\<close>

definition componentDidMount :: "source \<Rightarrow> jsval \<Rightarrow> world \<Rightarrow> unit completion \<times> world" where
  "componentDidMount graphqlObserve graphqlQueryPath w =
     (let w1 = console_log (JStr ''componentDidMount'') w in
      case invokeQuery graphqlObserve graphqlQueryPath of
        Throws e \<Rightarrow> (Throws e, w1)
      | Returns h \<Rightarrow> (Returns (), w1\<lparr>self := (self w1)\<lparr>subscription := Some h\<rparr>\<rparr>))"

text \<open>
  \<^verbatim>\<open>componentWillUnmount\<close>: logs; if a subscription is stored, calls its
  \<^verbatim>\<open>unsubscribe()\<close> and sets the field to \<^verbatim>\<open>null\<close>.
\<close>

definition componentWillUnmount :: "world \<Rightarrow> world" where
  "componentWillUnmount w =
     (let w1 = console_log (JStr ''componentWillUnmount'') w in
      case subscription (self w1) of
        None \<Rightarrow> w1
      | Some h \<Rightarrow> w1\<lparr>trace := trace w1 @ [Unsubscribe h],
                      self := (self w1)\<lparr>subscription := None\<rparr>\<rparr>)"

subsection \<open>render\<close>

text \<open>
  What \<^verbatim>\<open>render\<close> puts into the three \<^verbatim>\<open>div\<close> elements. The children are evaluated in
  order: \<^verbatim>\<open>JSON.stringify(response)\<close>, the text of \<^verbatim>\<open>complete\<close>, then
  \<^verbatim>\<open>error.message\<close>. \<^verbatim>\<open>JSON.stringify\<close> is the host's function and is a parameter.
\<close>

record rendered =
  response_div :: jsval
  complete_div :: string
  error_div :: jsval

definition render :: "(jsval \<Rightarrow> jsval completion) \<Rightarrow> component \<Rightarrow> rendered completion" where
  "render JSON_stringify c =
     (case JSON_stringify (response (state c)) of
        Throws e \<Rightarrow> Throws e
      | Returns r \<Rightarrow>
          (case get_message (error (state c)) of
             Throws e \<Rightarrow> Throws e
           | Returns m \<Rightarrow>
               Returns \<lparr>response_div = r,
                        complete_div = (if complete (state c) then ''true'' else ''false''),
                        error_div = m\<rparr>))"

subsection \<open>React around the component\<close>

text \<open>
  \<^verbatim>\<open>App.js\<close> renders the component as the child of a route, so its methods are called by
  React alone. For the element React creates the instance with the constructor and links it
  into the tree, where \<^verbatim>\<open>setState\<close> takes effect; it then calls
  \<^verbatim>\<open>componentDidMount\<close>. \<open>instantiate\<close> is the instance at that point, with no effect
  performed yet.
\<close>

definition instantiate :: "jsval \<Rightarrow> world" where
  "instantiate props = \<lparr>self = (constructor props)\<lparr>mounted := True\<rparr>, trace = []\<rparr>"

text \<open>
  When the route is left React calls \<^verbatim>\<open>componentWillUnmount\<close> and removes the instance
  from the tree.
\<close>

definition unmount :: "world \<Rightarrow> world" where
  "unmount w =
     (let w1 = componentWillUnmount w in w1\<lparr>self := (self w1)\<lparr>mounted := False\<rparr>\<rparr>)"

subsection \<open>What the source delivers to\<close>

text \<open>
  A source keeps the observer that \<^verbatim>\<open>subscribe\<close> was given and calls its methods later.
  \<open>recording g\<close> is the source \<open>g\<close> with a \<^verbatim>\<open>subscribe\<close> that hands back, next to its
  handle, the observer it was called with; \<open>invokeQuery\<close> run against it tells which
  observer the component has registered with \<open>g\<close>, if the subscription came about at all.
  \<open>emit\<close> is the source calling that observer, notification by notification.
\<close>

definition recording ::
  "source \<Rightarrow> request \<Rightarrow> (observer \<Rightarrow> (handle \<times> observer) completion) completion" where
  "recording g req =
     (case g req of
        Throws e \<Rightarrow> Throws e
      | Returns obs \<Rightarrow>
          Returns (\<lambda>ob. case obs ob of Throws e \<Rightarrow> Throws e | Returns h \<Rightarrow> Returns (h, ob)))"

definition registered :: "source \<Rightarrow> jsval \<Rightarrow> observer option" where
  "registered g graphqlQueryPath =
     (case invokeQuery (recording g) graphqlQueryPath of
        Throws e \<Rightarrow> None
      | Returns hob \<Rightarrow> Some (snd hob))"

fun emit :: "observer option \<Rightarrow> notification list \<Rightarrow> world \<Rightarrow> world" where
  "emit None ns w = w"
| "emit (Some ob) ns w = deliver_all ob ns w"

subsection \<open>Sources and host functions used in the examples\<close>

text \<open>A source whose observable hands out the handle \<open>h\<close>.\<close>

definition source_returning :: "handle \<Rightarrow> source" where
  "source_returning h req = Returns (\<lambda>ob. Returns h)"

text \<open>A source for which the call \<^verbatim>\<open>graphqlObserve(...)\<close> itself throws \<open>e\<close>.\<close>

definition source_throwing :: "jsval \<Rightarrow> source" where
  "source_throwing e req = Throws e"

text \<open>A source whose observable throws \<open>e\<close> from \<^verbatim>\<open>subscribe\<close>.\<close>

definition source_subscribe_throwing :: "jsval \<Rightarrow> source" where
  "source_subscribe_throwing e req = Returns (\<lambda>ob. Throws e)"

text \<open>
  A source that checks the endpoint: it throws \<open>e\<close> when the url of the request is not a
  string and hands out the handle \<open>h\<close> otherwise.
\<close>

definition source_validating :: "jsval \<Rightarrow> handle \<Rightarrow> source" where
  "source_validating e h req =
     (case url req of JStr s \<Rightarrow> Returns (\<lambda>ob. Returns h) | _ \<Rightarrow> Throws e)"

text \<open>A host \<^verbatim>\<open>JSON.stringify\<close> that returns the text \<open>t\<close>.\<close>

definition stringify_returning :: "string \<Rightarrow> jsval \<Rightarrow> jsval completion" where
  "stringify_returning t v = Returns (JStr t)"

text \<open>The handles released along a trace, oldest first.\<close>

fun unsubscribed :: "effect list \<Rightarrow> handle list" where
  "unsubscribed [] = []"
| "unsubscribed (Unsubscribe h # fx) = h # unsubscribed fx"
| "unsubscribed (ConsoleLog v # fx) = unsubscribed fx"
| "unsubscribed (ConsoleError v # fx) = unsubscribed fx"

text \<open>
  The state starts with \<^verbatim>\<open>error: ''\<close>; the error field is set when it holds anything else.
\<close>

definition lastError_set :: "view_state \<Rightarrow> bool" where
  "lastError_set s = (error s \<noteq> JStr '''')"

text \<open>\<^verbatim>\<open>null\<close> and \<^verbatim>\<open>undefined\<close>, the two values without properties.\<close>

fun nullish :: "jsval \<Rightarrow> bool" where
  "nullish JUndefined = True"
| "nullish JNull = True"
| "nullish (JBool b) = False"
| "nullish (JNum n) = False"
| "nullish (JStr s) = False"
| "nullish (JArr vs) = False"
| "nullish (JObj kvs) = False"
| "nullish (JError m) = False"
| "nullish (JTypeError m) = False"
| "nullish (JThrowing e) = False"

text \<open>
  The values other than \<^verbatim>\<open>null\<close> and \<^verbatim>\<open>undefined\<close> that have no \<^verbatim>\<open>message\<close> property:
  primitives, arrays, and plain objects without that key.
\<close>

fun without_message :: "jsval \<Rightarrow> bool" where
  "without_message JUndefined = False"
| "without_message JNull = False"
| "without_message (JBool b) = True"
| "without_message (JNum n) = True"
| "without_message (JStr s) = True"
| "without_message (JArr vs) = True"
| "without_message (JObj kvs) = (map_of kvs ''message'' = None)"
| "without_message (JError m) = False"
| "without_message (JTypeError m) = False"
| "without_message (JThrowing e) = False"

text \<open>Whether a call has thrown.\<close>

fun faults :: "'a completion \<Rightarrow> bool" where
  "faults (Throws e) = True"
| "faults (Returns x) = False"

text \<open>The payloads of the \<^verbatim>\<open>next\<close> notifications of a sequence, in order.\<close>

fun payloads :: "notification list \<Rightarrow> jsval list" where
  "payloads [] = []"
| "payloads (Next r # ns) = r # payloads ns"
| "payloads (Complete # ns) = payloads ns"
| "payloads (Error e # ns) = payloads ns"

section \<open>Properties\<close>

subsection \<open>What each callback and method changes\<close>

lemma self_next_cb:
  "self (next_cb r w) =
     (if mounted (self w) then (self w)\<lparr>state := (state (self w))\<lparr>response := r\<rparr>\<rparr>
      else self w)"
  by (simp add: next_cb_def setState_def console_log_def)

lemma self_complete_cb:
  "self (complete_cb w) =
     (if mounted (self w) then (self w)\<lparr>state := (state (self w))\<lparr>complete := True\<rparr>\<rparr>
      else self w)"
  by (simp add: complete_cb_def setState_def console_log_def)

lemma self_error_cb:
  "self (error_cb e w) =
     (if mounted (self w) then (self w)\<lparr>state := (state (self w))\<lparr>error := e\<rparr>\<rparr>
      else self w)"
  by (simp add: error_cb_def setState_def console_error_def)

lemma trace_next_cb: "trace (next_cb r w) = trace w @ [ConsoleLog r]"
  by (simp add: next_cb_def setState_def console_log_def)

lemma trace_complete_cb: "trace (complete_cb w) = trace w @ [ConsoleLog (JStr ''complete'')]"
  by (simp add: complete_cb_def setState_def console_log_def)

lemma trace_error_cb: "trace (error_cb e w) = trace w @ [ConsoleError e]"
  by (simp add: error_cb_def setState_def console_error_def)

lemma callbacks_simps:
  "on_next callbacks = next_cb" "on_complete callbacks = complete_cb"
  "on_error callbacks = error_cb"
  by (simp_all add: callbacks_def)

lemmas self_cb = callbacks_simps self_next_cb self_complete_cb self_error_cb

lemma subscription_deliver:
  "subscription (self (deliver callbacks n w)) = subscription (self w)"
  by (cases n) (simp_all add: self_cb)

lemma subscription_deliver_all:
  "subscription (self (deliver_all callbacks ns w)) = subscription (self w)"
  by (induction ns arbitrary: w) (simp_all add: subscription_deliver)

lemma mounted_deliver: "mounted (self (deliver callbacks n w)) = mounted (self w)"
  by (cases n) (simp_all add: self_cb)

lemma mounted_deliver_all: "mounted (self (deliver_all callbacks ns w)) = mounted (self w)"
  by (induction ns arbitrary: w) (simp_all add: mounted_deliver)

lemma self_deliver_unmounted: "\<not> mounted (self w) \<Longrightarrow> self (deliver callbacks n w) = self w"
  by (cases n) (simp_all add: self_cb)

lemma self_deliver_all_unmounted:
  "\<not> mounted (self w) \<Longrightarrow> self (deliver_all callbacks ns w) = self w"
proof (induction ns arbitrary: w)
  case Nil
  show ?case by simp
next
  case (Cons n ns)
  have "\<not> mounted (self (deliver callbacks n w))"
    using Cons.prems by (simp add: mounted_deliver)
  then have "self (deliver_all callbacks ns (deliver callbacks n w)) = self (deliver callbacks n w)"
    by (rule Cons.IH)
  then show ?case
    using Cons.prems by (simp add: self_deliver_unmounted)
qed

lemma self_componentWillUnmount:
  "self (componentWillUnmount w) = (self w)\<lparr>subscription := None\<rparr>"
  by (cases "subscription (self w)") (simp_all add: componentWillUnmount_def console_log_def)

lemma trace_componentWillUnmount:
  "trace (componentWillUnmount w) =
     trace w @ ConsoleLog (JStr ''componentWillUnmount'') #
       (case subscription (self w) of None \<Rightarrow> [] | Some h \<Rightarrow> [Unsubscribe h])"
  by (cases "subscription (self w)") (simp_all add: componentWillUnmount_def console_log_def)

lemma self_unmount: "self (unmount w) = (self w)\<lparr>subscription := None, mounted := False\<rparr>"
  by (simp add: unmount_def Let_def self_componentWillUnmount)

lemma trace_unmount: "trace (unmount w) = trace (componentWillUnmount w)"
  by (simp add: unmount_def Let_def)

lemma unsubscribed_append: "unsubscribed (fx @ gx) = unsubscribed fx @ unsubscribed gx"
  by (induction fx rule: unsubscribed.induct) simp_all

lemma componentDidMount_returns:
  "invokeQuery graphqlObserve p = Returns h \<Longrightarrow>
     componentDidMount graphqlObserve p w =
       (Returns (),
        \<lparr>self = (self w)\<lparr>subscription := Some h\<rparr>,
         trace = trace w @ [ConsoleLog (JStr ''componentDidMount'')]\<rparr>)"
  by (simp add: componentDidMount_def console_log_def)

lemma componentDidMount_throws:
  "invokeQuery graphqlObserve p = Throws e \<Longrightarrow>
     componentDidMount graphqlObserve p w =
       (Throws e, \<lparr>self = self w, trace = trace w @ [ConsoleLog (JStr ''componentDidMount'')]\<rparr>)"
  by (simp add: componentDidMount_def console_log_def)

lemma invokeQuery_source_returning: "invokeQuery (source_returning h) p = Returns h"
  by (simp add: invokeQuery_def source_returning_def)

lemma invokeQuery_source_throwing: "invokeQuery (source_throwing e) p = Throws e"
  by (simp add: invokeQuery_def source_throwing_def)

lemma invokeQuery_source_subscribe_throwing:
  "invokeQuery (source_subscribe_throwing e) p = Throws e"
  by (simp add: invokeQuery_def source_subscribe_throwing_def)

lemma invokeQuery_source_validating:
  "invokeQuery (source_validating e h) (JStr s) = Returns h"
  "invokeQuery (source_validating e h) JUndefined = Throws e"
  by (simp_all add: invokeQuery_def source_validating_def query_request_def)

lemma registered_invokeQuery:
  "registered g p = (case invokeQuery g p of Throws e \<Rightarrow> None | Returns h \<Rightarrow> Some callbacks)"
  by (simp add: registered_def invokeQuery_def recording_def split: completion.splits)

lemma state_componentDidMount:
  "state (self (snd (componentDidMount graphqlObserve p w))) = state (self w)"
  by (cases "invokeQuery graphqlObserve p") (simp_all add: componentDidMount_def console_log_def)

lemma mounted_componentDidMount:
  "mounted (self (snd (componentDidMount graphqlObserve p w))) = mounted (self w)"
  by (cases "invokeQuery graphqlObserve p") (simp_all add: componentDidMount_def console_log_def)

lemma deliver_all_append:
  "deliver_all ob (ms @ ns) w = deliver_all ob ns (deliver_all ob ms w)"
  by (induction ms arbitrary: w) simp_all

subsection \<open>The initial state\<close>

text \<open>
  C10. Before any notification has been delivered the view state is exactly
  \<^verbatim>\<open>{ response: '', complete: false, error: '' }\<close>, also once the component is mounted:
  response and error start as empty strings, not as an absent value. The error message
  first rendered is therefore the \<^verbatim>\<open>message\<close> property of an empty string, which is
  \<^verbatim>\<open>undefined\<close>.
\<close>

theorem initial_view_state:
  "state (constructor props) = \<lparr>response = JStr '''', complete = False, error = JStr ''''\<rparr>
   \<and> state (self (snd (componentDidMount graphqlObserve p (instantiate props))))
       = \<lparr>response = JStr '''', complete = False, error = JStr ''''\<rparr>
   \<and> get_message (error (state (constructor props))) = Returns JUndefined
   \<and> render JSON_stringify (constructor props) =
       (case JSON_stringify (JStr '''') of
          Throws e \<Rightarrow> Throws e
        | Returns r \<Rightarrow>
            Returns \<lparr>response_div = r, complete_div = ''false'', error_div = JUndefined\<rparr>)"
proof -
  have "state (self (snd (componentDidMount graphqlObserve p (instantiate props))))
          = state (constructor props)"
    by (cases "invokeQuery graphqlObserve p")
       (simp_all add: componentDidMount_def console_log_def instantiate_def)
  then show ?thesis
    by (simp add: constructor_def render_def split: completion.splits)
qed

subsection \<open>Unmounting\<close>

text \<open>
  C5. \<^verbatim>\<open>componentWillUnmount\<close> on an instance on which \<^verbatim>\<open>componentDidMount\<close> never ran
  leaves the instance as the constructor made it and releases nothing: its only effect is
  its console line. The method has no statement that can throw on this path.
\<close>

theorem unmount_without_mount_is_noop:
  "self (componentWillUnmount \<lparr>self = constructor props, trace = fx\<rparr>) = constructor props
   \<and> trace (componentWillUnmount \<lparr>self = constructor props, trace = fx\<rparr>)
       = fx @ [ConsoleLog (JStr ''componentWillUnmount'')]
   \<and> unsubscribed (trace (componentWillUnmount (instantiate props))) = []"
  by (simp add: componentWillUnmount_def console_log_def constructor_def instantiate_def)

text \<open>
  C4. Two calls of \<^verbatim>\<open>componentWillUnmount\<close> in succession call \<^verbatim>\<open>unsubscribe\<close> at most
  once in total: the first call releases the stored handle, if there is one, and clears the
  field; the second call releases nothing.
\<close>

theorem unmount_twice_releases_once:
  "unsubscribed (trace (componentWillUnmount (componentWillUnmount w)))
     = unsubscribed (trace w) @ (case subscription (self w) of None \<Rightarrow> [] | Some h \<Rightarrow> [h])
   \<and> subscription (self (componentWillUnmount w)) = None
   \<and> unsubscribed (trace (componentWillUnmount (componentWillUnmount w)))
       = unsubscribed (trace (componentWillUnmount w))
   \<and> length (unsubscribed (trace (componentWillUnmount (componentWillUnmount w))))
       \<le> length (unsubscribed (trace w)) + 1"
  by (cases "subscription (self w)")
     (simp_all add: trace_componentWillUnmount self_componentWillUnmount unsubscribed_append)


subsection \<open>Notifications while mounted\<close>

lemma response_deliver_all_Next:
  assumes "mounted (self w)" and "ps \<noteq> []"
  shows "response (state (self (deliver_all callbacks (map Next ps) w))) = last ps"
proof -
  from \<open>ps \<noteq> []\<close> obtain qs q where ps: "ps = qs @ [q]"
    by (cases ps rule: rev_cases) auto
  have "mounted (self (deliver_all callbacks (map Next qs) w))"
    using \<open>mounted (self w)\<close> by (simp add: mounted_deliver_all)
  then show ?thesis
    by (simp add: ps deliver_all_append self_cb)
qed

text \<open>
  C3. React has mounted the component and the subscription has come about. Then after every
  non-empty finite sequence of \<^verbatim>\<open>next\<close> notifications that the source delivers to the
  observer \<open>invokeQuery\<close> has registered with it, the \<^verbatim>\<open>response\<close> field holds the payload
  delivered last. The same holds from any later point at which the instance is still in the
  tree.
\<close>

theorem response_is_last_payload:
  "(invokeQuery g p = Returns h \<and> ps \<noteq> [] \<longrightarrow>
      response (state (self (emit (registered g p) (map Next ps)
        (snd (componentDidMount g p (instantiate props)))))) = last ps)
   \<and> (invokeQuery g p = Returns h \<and> mounted (self w) \<and> ps \<noteq> [] \<longrightarrow>
      response (state (self (emit (registered g p) (map Next ps) w))) = last ps)"
proof -
  have m: "mounted (self (snd (componentDidMount g p (instantiate props))))"
    by (simp add: mounted_componentDidMount instantiate_def)
  show ?thesis
    using m by (simp add: registered_invokeQuery response_deliver_all_Next)
qed

theorem response_is_last_payload_witness:
  "invokeQuery (source_returning 7) (JStr ''/graphql'') = Returns 7
   \<and> [JNum 1, JObj [(''cpu'', JNum 42)]] \<noteq> []
   \<and> response (state (self (emit (registered (source_returning 7) (JStr ''/graphql''))
         (map Next [JNum 1, JObj [(''cpu'', JNum 42)]])
         (snd (componentDidMount (source_returning 7) (JStr ''/graphql'') (instantiate JNull))))))
       = JObj [(''cpu'', JNum 42)]
   \<and> mounted (self (emit (registered (source_returning 7) (JStr ''/graphql'')) [Complete]
         (snd (componentDidMount (source_returning 7) (JStr ''/graphql'') (instantiate JNull)))))
   \<and> response (state (self (emit (registered (source_returning 7) (JStr ''/graphql''))
         (map Next [JNum 1, JObj [(''cpu'', JNum 42)]])
         (emit (registered (source_returning 7) (JStr ''/graphql'')) [Complete]
           (snd (componentDidMount (source_returning 7) (JStr ''/graphql'')
             (instantiate JNull)))))))
       = JObj [(''cpu'', JNum 42)]"
  using response_is_last_payload
    [where g = "source_returning 7" and p = "JStr ''/graphql''" and h = 7
       and ps = "[JNum 1, JObj [(''cpu'', JNum 42)]]" and props = JNull
       and w = "emit (registered (source_returning 7) (JStr ''/graphql'')) [Complete]
           (snd (componentDidMount (source_returning 7) (JStr ''/graphql'')
             (instantiate JNull)))"]
  by (simp add: invokeQuery_source_returning registered_invokeQuery self_cb
      mounted_componentDidMount instantiate_def)


text \<open>
  C7. The \<^verbatim>\<open>subscription\<close> field holds no handle after construction, exactly the handle
  the source returned from a successful \<^verbatim>\<open>componentDidMount\<close> until
  \<^verbatim>\<open>componentWillUnmount\<close>, whatever notifications arrive in between, and no handle
  afterwards. No callback touches the field, \<^verbatim>\<open>componentWillUnmount\<close> always leaves it
  empty, a \<^verbatim>\<open>componentDidMount\<close> that returns leaves in it the one handle it was given,
  and a \<^verbatim>\<open>componentDidMount\<close> whose \<open>invokeQuery\<close> throws leaves it as it was.
\<close>

theorem at_most_one_handle:
  "subscription (constructor props) = None
   \<and> (invokeQuery graphqlObserve p = Returns h \<longrightarrow>
        subscription (self (snd (componentDidMount graphqlObserve p (instantiate props))))
          = Some h
      \<and> subscription (self (deliver_all callbacks ns
            (snd (componentDidMount graphqlObserve p (instantiate props))))) = Some h
      \<and> subscription (self (componentWillUnmount (deliver_all callbacks ns
            (snd (componentDidMount graphqlObserve p (instantiate props)))))) = None)
   \<and> (invokeQuery graphqlObserve p = Returns h \<longrightarrow>
        subscription (self (snd (componentDidMount graphqlObserve p w))) = Some h)
   \<and> (invokeQuery graphqlObserve p = Throws e \<longrightarrow>
        subscription (self (snd (componentDidMount graphqlObserve p w)))
          = subscription (self w))
   \<and> subscription (self (deliver callbacks n w)) = subscription (self w)
   \<and> subscription (self (componentWillUnmount w)) = None"
  by (simp add: constructor_def componentDidMount_returns componentDidMount_throws
      subscription_deliver subscription_deliver_all self_componentWillUnmount)

theorem at_most_one_handle_witness:
  "invokeQuery (source_returning 7) (JStr ''/graphql'') = Returns 7
   \<and> subscription (self (snd (componentDidMount (source_returning 7) (JStr ''/graphql'')
         (instantiate JNull)))) = Some 7
   \<and> subscription (self (deliver_all callbacks [Next (JNum 1), Complete]
         (snd (componentDidMount (source_returning 7) (JStr ''/graphql'')
           (instantiate JNull))))) = Some 7
   \<and> subscription (self (componentWillUnmount (deliver_all callbacks [Next (JNum 1), Complete]
         (snd (componentDidMount (source_returning 7) (JStr ''/graphql'')
           (instantiate JNull)))))) = None
   \<and> invokeQuery (source_throwing (JError ''bad request'')) (JStr ''/graphql'')
       = Throws (JError ''bad request'')
   \<and> subscription (self (snd (componentDidMount (source_throwing (JError ''bad request''))
         (JStr ''/graphql'') (instantiate JNull)))) = None"
  using at_most_one_handle
    [where props = JNull and graphqlObserve = "source_returning 7" and p = "JStr ''/graphql''"
       and h = 7 and ns = "[Next (JNum 1), Complete]" and e = JNull and n = Complete
       and w = "instantiate JNull"]
    at_most_one_handle
    [where props = JNull and graphqlObserve = "source_throwing (JError ''bad request'')"
       and p = "JStr ''/graphql''" and h = 7 and ns = "[]" and e = "JError ''bad request''"
       and n = Complete and w = "instantiate JNull"]
  by (simp add: invokeQuery_source_returning invokeQuery_source_throwing instantiate_def
      constructor_def)


text \<open>
  C8. React has mounted the component and the subscription has come about; the source
  delivers to the observer \<open>invokeQuery\<close> has registered. After one payload the state shows
  that payload, no completion and no error. The completion notification then sets only
  \<^verbatim>\<open>complete\<close>: the payload stays and the error stays unset. The error notification sets
  only \<^verbatim>\<open>error\<close>: the payload and \<^verbatim>\<open>complete\<close> stay. In any state of an instance that is in
  the tree, the completion notification changes the \<^verbatim>\<open>complete\<close> field alone and the error
  notification the \<^verbatim>\<open>error\<close> field alone.
\<close>

theorem complete_and_error_change_one_field:
  "(invokeQuery g p = Returns h \<longrightarrow>
      state (self (emit (registered g p) [Next r]
        (snd (componentDidMount g p (instantiate props)))))
        = \<lparr>response = r, complete = False, error = JStr ''''\<rparr>
    \<and> state (self (emit (registered g p) [Next r, Complete]
        (snd (componentDidMount g p (instantiate props)))))
        = \<lparr>response = r, complete = True, error = JStr ''''\<rparr>
    \<and> state (self (emit (registered g p) [Next r, Error e]
        (snd (componentDidMount g p (instantiate props)))))
        = \<lparr>response = r, complete = False, error = e\<rparr>)
   \<and> (invokeQuery g p = Returns h \<and> mounted (self w) \<longrightarrow>
      state (self (emit (registered g p) [Complete] w)) = (state (self w))\<lparr>complete := True\<rparr>
    \<and> state (self (emit (registered g p) [Error e] w)) = (state (self w))\<lparr>error := e\<rparr>)"
  by (simp add: registered_invokeQuery componentDidMount_returns self_cb instantiate_def
      constructor_def)

theorem complete_and_error_change_one_field_witness:
  "invokeQuery (source_returning 7) (JStr ''/graphql'') = Returns 7
   \<and> state (self (emit (registered (source_returning 7) (JStr ''/graphql''))
        [Next (JObj [(''cpu'', JNum 42)])]
        (snd (componentDidMount (source_returning 7) (JStr ''/graphql'') (instantiate JNull)))))
       = \<lparr>response = JObj [(''cpu'', JNum 42)], complete = False, error = JStr ''''\<rparr>
   \<and> state (self (emit (registered (source_returning 7) (JStr ''/graphql''))
        [Next (JObj [(''cpu'', JNum 42)]), Complete]
        (snd (componentDidMount (source_returning 7) (JStr ''/graphql'') (instantiate JNull)))))
       = \<lparr>response = JObj [(''cpu'', JNum 42)], complete = True, error = JStr ''''\<rparr>
   \<and> state (self (emit (registered (source_returning 7) (JStr ''/graphql''))
        [Next (JObj [(''cpu'', JNum 42)]), Error (JError ''boom'')]
        (snd (componentDidMount (source_returning 7) (JStr ''/graphql'') (instantiate JNull)))))
       = \<lparr>response = JObj [(''cpu'', JNum 42)], complete = False, error = JError ''boom''\<rparr>
   \<and> mounted (self (snd (componentDidMount (source_returning 7) (JStr ''/graphql'')
        (instantiate JNull))))
   \<and> state (self (emit (registered (source_returning 7) (JStr ''/graphql'')) [Complete]
        (snd (componentDidMount (source_returning 7) (JStr ''/graphql'') (instantiate JNull)))))
       = \<lparr>response = JStr '''', complete = True, error = JStr ''''\<rparr>"
  using complete_and_error_change_one_field
    [where g = "source_returning 7" and p = "JStr ''/graphql''" and h = 7 and props = JNull
       and r = "JObj [(''cpu'', JNum 42)]" and e = "JError ''boom''"
       and w = "snd (componentDidMount (source_returning 7) (JStr ''/graphql'')
                  (instantiate JNull))"]
  by (simp add: invokeQuery_source_returning mounted_componentDidMount state_componentDidMount
      instantiate_def constructor_def)

subsection \<open>Notifications after React has unmounted the component\<close>

text \<open>
  C1. When React unmounts the component it calls \<^verbatim>\<open>componentWillUnmount\<close>, which
  unsubscribes from the stored handle and empties the field without touching the view
  state, and removes the instance from the tree. Whatever the source still delivers
  afterwards to the observer \<open>invokeQuery\<close> registered, one notification or many, of any
  kind, the callbacks run but their \<^verbatim>\<open>setState\<close> changes nothing: the instance, and with
  it the view state, stays as it was when it was unmounted.
\<close>

theorem late_notifications_change_nothing:
  "state (self (unmount w)) = state (self w)
   \<and> subscription (self (unmount w)) = None
   \<and> unsubscribed (trace (unmount w))
       = unsubscribed (trace w) @ (case subscription (self w) of None \<Rightarrow> [] | Some h \<Rightarrow> [h])
   \<and> self (emit (registered g p) ns (unmount w)) = self (unmount w)
   \<and> state (self (emit (registered g p) ns (unmount w))) = state (self w)
   \<and> state (self (deliver callbacks n (unmount w))) = state (self w)"
proof -
  have u: "\<not> mounted (self (unmount w))"
    by (simp add: self_unmount)
  have e: "self (emit (registered g p) ns (unmount w)) = self (unmount w)"
    using u by (cases "invokeQuery g p")
      (simp_all add: registered_invokeQuery self_deliver_all_unmounted)
  have d: "self (deliver callbacks n (unmount w)) = self (unmount w)"
    using u by (rule self_deliver_unmounted)
  have t: "unsubscribed (trace (unmount w))
       = unsubscribed (trace w) @ (case subscription (self w) of None \<Rightarrow> [] | Some h \<Rightarrow> [h])"
    by (cases "subscription (self w)")
       (simp_all add: trace_unmount trace_componentWillUnmount unsubscribed_append)
  show ?thesis
    using t by (simp add: e d self_unmount)
qed

subsection \<open>Failures while subscribing\<close>

text \<open>
  C2, as stated, fails. When \<^verbatim>\<open>graphqlObserve\<close> itself throws, \<^verbatim>\<open>componentDidMount\<close>
  throws the same value to its caller; the error callback is not run (the only console
  line is the one of \<^verbatim>\<open>componentDidMount\<close>), and the error field keeps its initial value.
\<close>

theorem construction_failure_counterexample:
  "fst (componentDidMount (source_throwing (JError ''malformed request'')) (JStr ''/graphql'')
      (instantiate JNull)) = Throws (JError ''malformed request'')
   \<and> error (state (self (snd (componentDidMount (source_throwing (JError ''malformed request''))
      (JStr ''/graphql'') (instantiate JNull))))) = JStr ''''
   \<and> trace (snd (componentDidMount (source_throwing (JError ''malformed request''))
      (JStr ''/graphql'') (instantiate JNull))) = [ConsoleLog (JStr ''componentDidMount'')]"
  by (simp add: componentDidMount_throws invokeQuery_source_throwing instantiate_def
      constructor_def)

text \<open>
  C2, amended. A failure that the source reports through the error callback it was given
  ends up in the error field of the view state. \<open>invokeQuery\<close> and
  \<^verbatim>\<open>componentDidMount\<close> catch nothing: when the call of \<^verbatim>\<open>graphqlObserve\<close> throws, or the
  \<^verbatim>\<open>subscribe\<close> of the observable it returns throws, the value thrown leaves
  \<^verbatim>\<open>componentDidMount\<close>, and the instance is as before the call (no handle stored, view
  state unchanged) apart from the console line.
\<close>

theorem construction_failure_propagates:
  "(graphqlObserve (query_request p) = Throws e \<longrightarrow>
      componentDidMount graphqlObserve p w
        = (Throws e, console_log (JStr ''componentDidMount'') w))
   \<and> (graphqlObserve (query_request p) = Returns obs \<and> obs callbacks = Throws e \<longrightarrow>
      componentDidMount graphqlObserve p w
        = (Throws e, console_log (JStr ''componentDidMount'') w))
   \<and> self (console_log (JStr ''componentDidMount'') w) = self w
   \<and> (invokeQuery graphqlObserve p = Returns h \<longrightarrow>
      state (self (emit (registered graphqlObserve p) [Error e]
        (snd (componentDidMount graphqlObserve p (instantiate props)))))
        = \<lparr>response = JStr '''', complete = False, error = e\<rparr>)"
  by (simp add: componentDidMount_def invokeQuery_def console_log_def registered_invokeQuery
      self_cb instantiate_def constructor_def)

theorem construction_failure_propagates_witness:
  "source_validating (JError ''malformed request'') 7 (query_request JUndefined)
     = Throws (JError ''malformed request'')
   \<and> componentDidMount (source_validating (JError ''malformed request'') 7) JUndefined
        (instantiate JNull)
       = (Throws (JError ''malformed request''),
          console_log (JStr ''componentDidMount'') (instantiate JNull))
   \<and> source_subscribe_throwing (JError ''malformed request'') (query_request (JStr ''/graphql''))
       = Returns (\<lambda>ob. Throws (JError ''malformed request''))
   \<and> componentDidMount (source_subscribe_throwing (JError ''malformed request''))
        (JStr ''/graphql'') (instantiate JNull)
       = (Throws (JError ''malformed request''),
          console_log (JStr ''componentDidMount'') (instantiate JNull))
   \<and> invokeQuery (source_validating (JError ''malformed request'') 7) (JStr ''/graphql'')
       = Returns 7
   \<and> state (self (emit (registered (source_validating (JError ''malformed request'') 7)
          (JStr ''/graphql'')) [Error (JError ''network down'')]
        (snd (componentDidMount (source_validating (JError ''malformed request'') 7)
          (JStr ''/graphql'') (instantiate JNull)))))
       = \<lparr>response = JStr '''', complete = False, error = JError ''network down''\<rparr>"
  using construction_failure_propagates
    [where graphqlObserve = "source_validating (JError ''malformed request'') 7"
       and e = "JError ''malformed request''" and p = JUndefined
       and w = "instantiate JNull" and obs = "\<lambda>ob. Returns 0" and h = 7 and props = JNull]
    construction_failure_propagates
    [where graphqlObserve = "source_subscribe_throwing (JError ''malformed request'')"
       and e = "JError ''malformed request''" and p = "JStr ''/graphql''"
       and w = "instantiate JNull" and obs = "\<lambda>ob. Throws (JError ''malformed request'')"
       and h = 7 and props = JNull]
    construction_failure_propagates
    [where graphqlObserve = "source_validating (JError ''malformed request'') 7"
       and e = "JError ''network down''" and p = "JStr ''/graphql''"
       and w = "instantiate JNull" and obs = "\<lambda>ob. Returns 0" and h = 7 and props = JNull]
  by (simp add: source_validating_def source_subscribe_throwing_def query_request_def
      invokeQuery_source_validating)

subsection \<open>Terminal flags\<close>

lemma complete_deliver:
  "complete (state (self w)) \<Longrightarrow> complete (state (self (deliver callbacks n w)))"
  by (cases n) (simp_all add: self_cb)

lemma complete_deliver_all:
  "complete (state (self w)) \<Longrightarrow> complete (state (self (deliver_all callbacks ns w)))"
  by (induction ns arbitrary: w) (simp_all add: complete_deliver)

text \<open>
  C6, as stated, fails for the error field. A mounted component that has received the error
  \<^verbatim>\<open>Error('boom')\<close> has its error field set; an error notification that carries the empty
  string then overwrites the field with \<^verbatim>\<open>''\<close>, the value it had before any error.
\<close>

theorem error_cleared_counterexample:
  "lastError_set (state (self (deliver_all callbacks [Error (JError ''boom'')]
      (snd (componentDidMount (source_returning 7) (JStr ''/graphql'') (instantiate JNull))))))
   \<and> \<not> lastError_set (state (self (deliver_all callbacks
      [Error (JError ''boom''), Error (JStr '''')]
      (snd (componentDidMount (source_returning 7) (JStr ''/graphql'') (instantiate JNull))))))
   \<and> error (state (self (deliver_all callbacks [Error (JError ''boom''), Error (JStr '''')]
      (snd (componentDidMount (source_returning 7) (JStr ''/graphql'') (instantiate JNull))))))
     = error (state (constructor JNull))"
  by (simp add: lastError_set_def self_cb componentDidMount_returns
      invokeQuery_source_returning instantiate_def constructor_def)

text \<open>
  C6, amended. Once \<^verbatim>\<open>complete\<close> is true no notification, and no sequence of
  notifications, makes it false again. The \<^verbatim>\<open>next\<close> and \<^verbatim>\<open>complete\<close> callbacks leave the
  error field as it is; the \<^verbatim>\<open>error\<close> callback, on an instance that is in the tree,
  overwrites it with the value it is given. So a set error stays set after every
  notification other than an error notification that carries the empty string.
\<close>

theorem terminal_flags_persist:
  "(complete (state (self w)) \<longrightarrow>
      complete (state (self (deliver callbacks n w)))
      \<and> complete (state (self (deliver_all callbacks ns w))))
   \<and> error (state (self (deliver callbacks (Next r) w))) = error (state (self w))
   \<and> error (state (self (deliver callbacks Complete w))) = error (state (self w))
   \<and> (mounted (self w) \<longrightarrow> error (state (self (deliver callbacks (Error e) w))) = e)
   \<and> (lastError_set (state (self w)) \<and> n \<noteq> Error (JStr '''') \<longrightarrow>
        lastError_set (state (self (deliver callbacks n w))))"
proof -
  have "lastError_set (state (self (deliver callbacks n w)))"
    if "lastError_set (state (self w))" and "n \<noteq> Error (JStr '''')"
    using that by (cases n) (simp_all add: lastError_set_def self_cb)
  then show ?thesis
    by (simp add: complete_deliver complete_deliver_all self_cb)
qed

theorem terminal_flags_persist_witness:
  "complete (state (self (emit (registered (source_returning 7) (JStr ''/graphql''))
      [Next (JNum 1), Complete]
      (snd (componentDidMount (source_returning 7) (JStr ''/graphql'') (instantiate JNull))))))
   \<and> complete (state (self (deliver callbacks (Next (JNum 2))
      (emit (registered (source_returning 7) (JStr ''/graphql'')) [Next (JNum 1), Complete]
        (snd (componentDidMount (source_returning 7) (JStr ''/graphql'')
          (instantiate JNull)))))))
   \<and> complete (state (self (deliver_all callbacks [Next (JNum 2), Error (JError ''boom'')]
      (emit (registered (source_returning 7) (JStr ''/graphql'')) [Next (JNum 1), Complete]
        (snd (componentDidMount (source_returning 7) (JStr ''/graphql'')
          (instantiate JNull)))))))
   \<and> mounted (self (emit (registered (source_returning 7) (JStr ''/graphql''))
      [Error (JError ''boom'')]
      (snd (componentDidMount (source_returning 7) (JStr ''/graphql'') (instantiate JNull)))))
   \<and> lastError_set (state (self (emit (registered (source_returning 7) (JStr ''/graphql''))
      [Error (JError ''boom'')]
      (snd (componentDidMount (source_returning 7) (JStr ''/graphql'') (instantiate JNull))))))
   \<and> Error (JError ''late'') \<noteq> Error (JStr '''')
   \<and> error (state (self (deliver callbacks (Error (JError ''late''))
      (emit (registered (source_returning 7) (JStr ''/graphql'')) [Error (JError ''boom'')]
        (snd (componentDidMount (source_returning 7) (JStr ''/graphql'')
          (instantiate JNull))))))) = JError ''late''
   \<and> lastError_set (state (self (deliver callbacks (Error (JError ''late''))
      (emit (registered (source_returning 7) (JStr ''/graphql'')) [Error (JError ''boom'')]
        (snd (componentDidMount (source_returning 7) (JStr ''/graphql'')
          (instantiate JNull)))))))"
  using terminal_flags_persist
    [where w = "emit (registered (source_returning 7) (JStr ''/graphql''))
          [Next (JNum 1), Complete]
          (snd (componentDidMount (source_returning 7) (JStr ''/graphql'') (instantiate JNull)))"
       and n = "Next (JNum 2)" and ns = "[Next (JNum 2), Error (JError ''boom'')]"
       and r = JNull and e = JNull]
    terminal_flags_persist
    [where w = "emit (registered (source_returning 7) (JStr ''/graphql''))
          [Error (JError ''boom'')]
          (snd (componentDidMount (source_returning 7) (JStr ''/graphql'') (instantiate JNull)))"
       and n = "Error (JError ''late'')" and ns = "[]" and r = JNull
       and e = "JError ''late''"]
  by (simp add: registered_invokeQuery invokeQuery_source_returning self_cb lastError_set_def
      componentDidMount_returns instantiate_def constructor_def)

subsection \<open>Rendering\<close>

lemma get_message_nullish: "nullish v \<Longrightarrow> faults (get_message v)"
  by (cases v) simp_all

lemma get_message_without_message: "without_message v \<Longrightarrow> get_message v = Returns JUndefined"
  by (cases v) simp_all

lemma faults_render:
  "JSON_stringify (response (state c)) = Returns r \<Longrightarrow>
     faults (render JSON_stringify c) = faults (get_message (error (state c)))"
  by (cases "get_message (error (state c))") (simp_all add: render_def)

text \<open>
  C9, as stated, fails. An error notification may carry \<^verbatim>\<open>undefined\<close>; on the mounted
  component the error field then holds \<^verbatim>\<open>undefined\<close>, a value without a message, and
  \<^verbatim>\<open>render\<close> throws when it reads \<^verbatim>\<open>error.message\<close>.
\<close>

theorem render_undefined_error_counterexample:
  "error (state (self (deliver callbacks (Error JUndefined)
      (snd (componentDidMount (source_returning 7) (JStr ''/graphql'') (instantiate JNull))))))
     = JUndefined
   \<and> faults (render (stringify_returning [CHR 0x22, CHR 0x22])
      (self (deliver callbacks (Error JUndefined)
        (snd (componentDidMount (source_returning 7) (JStr ''/graphql'')
          (instantiate JNull))))))"
  by (simp add: render_def stringify_returning_def self_cb componentDidMount_returns
      invokeQuery_source_returning instantiate_def constructor_def)

text \<open>
  C9, amended. Provided \<^verbatim>\<open>JSON.stringify\<close> returns on the response, the \<^verbatim>\<open>render\<close>
  method throws exactly when the read of \<^verbatim>\<open>error.message\<close> throws. It returns, with
  \<^verbatim>\<open>undefined\<close> in the place of the message, for every error value other than \<^verbatim>\<open>null\<close> and
  \<^verbatim>\<open>undefined\<close> that has no \<^verbatim>\<open>message\<close> property: the empty string of the never-errored
  state, any other primitive, an array, a plain object without that key. It throws when the
  error value is \<^verbatim>\<open>null\<close> or \<^verbatim>\<open>undefined\<close>.
\<close>

theorem render_faults_only_on_message_read:
  "(JSON_stringify (response (state c)) = Returns r \<and> without_message (error (state c)) \<longrightarrow>
      render JSON_stringify c =
        Returns \<lparr>response_div = r,
                 complete_div = (if complete (state c) then ''true'' else ''false''),
                 error_div = JUndefined\<rparr>)
   \<and> (JSON_stringify (response (state c)) = Returns r \<and> nullish (error (state c)) \<longrightarrow>
      faults (render JSON_stringify c))
   \<and> (JSON_stringify (response (state c)) = Returns r \<longrightarrow>
      faults (render JSON_stringify c) = faults (get_message (error (state c))))"
proof -
  have a: "render JSON_stringify c =
        Returns \<lparr>response_div = r,
                 complete_div = (if complete (state c) then ''true'' else ''false''),
                 error_div = JUndefined\<rparr>"
    if "JSON_stringify (response (state c)) = Returns r" and "without_message (error (state c))"
    using that by (simp add: render_def get_message_without_message)
  have b: "faults (render JSON_stringify c)"
    if "JSON_stringify (response (state c)) = Returns r" and "nullish (error (state c))"
    using that by (simp add: faults_render get_message_nullish)
  show ?thesis
    using a b by (simp add: faults_render)
qed

theorem render_faults_only_on_message_read_witness:
  "stringify_returning [CHR 0x22, CHR 0x22]
     (response (state (self (snd (componentDidMount (source_returning 7) (JStr ''/graphql'')
        (instantiate JNull))))))
     = Returns (JStr [CHR 0x22, CHR 0x22])
   \<and> without_message (error (state (self (snd (componentDidMount (source_returning 7)
        (JStr ''/graphql'') (instantiate JNull))))))
   \<and> render (stringify_returning [CHR 0x22, CHR 0x22])
        (self (snd (componentDidMount (source_returning 7) (JStr ''/graphql'')
          (instantiate JNull))))
       = Returns \<lparr>response_div = JStr [CHR 0x22, CHR 0x22], complete_div = ''false'',
                  error_div = JUndefined\<rparr>
   \<and> nullish (error (state (self (emit (registered (source_returning 7) (JStr ''/graphql''))
        [Error JNull]
        (snd (componentDidMount (source_returning 7) (JStr ''/graphql'')
          (instantiate JNull)))))))
   \<and> faults (render (stringify_returning [CHR 0x22, CHR 0x22])
        (self (emit (registered (source_returning 7) (JStr ''/graphql'')) [Error JNull]
          (snd (componentDidMount (source_returning 7) (JStr ''/graphql'')
            (instantiate JNull))))))
   \<and> faults (get_message (JThrowing (JError ''no message'')))
   \<and> faults (render (stringify_returning [CHR 0x22, CHR 0x22])
        (self (emit (registered (source_returning 7) (JStr ''/graphql''))
          [Error (JThrowing (JError ''no message''))]
          (snd (componentDidMount (source_returning 7) (JStr ''/graphql'')
            (instantiate JNull))))))"
  using render_faults_only_on_message_read
    [where JSON_stringify = "stringify_returning [CHR 0x22, CHR 0x22]"
       and c = "self (snd (componentDidMount (source_returning 7) (JStr ''/graphql'')
          (instantiate JNull)))"
       and r = "JStr [CHR 0x22, CHR 0x22]"]
    render_faults_only_on_message_read
    [where JSON_stringify = "stringify_returning [CHR 0x22, CHR 0x22]"
       and c = "self (emit (registered (source_returning 7) (JStr ''/graphql'')) [Error JNull]
          (snd (componentDidMount (source_returning 7) (JStr ''/graphql'')
            (instantiate JNull))))"
       and r = "JStr [CHR 0x22, CHR 0x22]"]
    render_faults_only_on_message_read
    [where JSON_stringify = "stringify_returning [CHR 0x22, CHR 0x22]"
       and c = "self (emit (registered (source_returning 7) (JStr ''/graphql''))
          [Error (JThrowing (JError ''no message''))]
          (snd (componentDidMount (source_returning 7) (JStr ''/graphql'')
            (instantiate JNull))))"
       and r = "JStr [CHR 0x22, CHR 0x22]"]
  by (simp add: stringify_returning_def registered_invokeQuery invokeQuery_source_returning
      self_cb componentDidMount_returns instantiate_def constructor_def)

end
